theory Spec2Isabelle
  imports Complex_Main
begin

section \<open>The SimpleODE problem of the PINN tutorial (LESSON\_5/pinns.ipynb)\<close>

text \<open>
  The tutorial declares the class \<open>SimpleODE\<close>: one input variable \<open>x\<close>, one output
  variable \<open>u\<close>, the spatial domain \<open>[0, 1]\<close>, the residual function \<open>ode_equation\<close>, a
  dictionary of two conditions and the method \<open>truth_solution\<close>.

  Modelling choices.
  \<^item> A labelled tensor of sample points is read pointwise: \<open>input_\<close> is one value of \<open>x\<close>.
  \<^item> \<open>output_\<close> is a tensor that remembers how it was computed from \<open>input_\<close>; with one
    input and one output variable that is a function from \<open>x\<close> to \<open>u\<close>, and
    \<open>output_.extract(['u'])\<close> is its value at the point.
  \<^item> Numbers are real numbers; the rounding of the tensor library is not modelled.
  \<^item> \<open>grad\<close> comes from the imported framework and is not part of the notebook. It is a
    parameter of the model: it takes \<open>output_\<close> and \<open>input_\<close> (in the order of the call)
    and returns a number.
\<close>

type_synonym output_tensor = "real \<Rightarrow> real"

type_synonym grad_operator = "output_tensor \<Rightarrow> real \<Rightarrow> real"

text \<open>
  \<open>CartesianDomain({'x': [0, 1]})\<close> is a range of \<open>x\<close>, \<open>CartesianDomain({'x': 0.})\<close> a
  single fixed value of \<open>x\<close>.
\<close>

datatype CartesianDomain = Range real real | Fixed real

fun points :: "CartesianDomain \<Rightarrow> real set" where
  "points (Range a b) = {a..b}"
| "points (Fixed a) = {a}"

definition spatial_domain :: CartesianDomain where
  "spatial_domain = Range 0 1"

text \<open>
  \<open>ode_equation(input_, output_)\<close>: the derivative of \<open>u\<close> with respect to \<open>x\<close>, then the
  value of \<open>u\<close>, then the residual \<open>u_x - u\<close>.
\<close>

definition ode_equation :: "grad_operator \<Rightarrow> real \<Rightarrow> output_tensor \<Rightarrow> real" where
  "ode_equation grad input output =
     (let u_x = grad output input;
          u = output input
      in u_x - u)"

text \<open>
  The two kinds of equation the notebook uses in a condition: \<open>FixedValue(v)\<close> and
  \<open>Equation(f)\<close> wrapping a residual function of the notebook.
\<close>

datatype equation =
    FixedValue real
  | Equation "grad_operator \<Rightarrow> real \<Rightarrow> output_tensor \<Rightarrow> real"

text \<open>
  The dictionary \<open>conditions\<close>, in the order it is written: \<open>'x0'\<close> fixes the value 1 at
  \<open>x = 0\<close>, \<open>'D'\<close> asks for the residual of \<open>ode_equation\<close> on \<open>[0, 1]\<close>.
\<close>

definition conditions :: "(string \<times> CartesianDomain \<times> equation) list" where
  "conditions =
     [(''x0'', Fixed 0, FixedValue 1),
      (''D'', Range 0 1, Equation ode_equation)]"

text \<open>\<open>truth_solution(self, pts)\<close> returns \<open>exp\<close> of the \<open>x\<close> component of \<open>pts\<close>.\<close>

definition truth_solution :: "real \<Rightarrow> real" where
  "truth_solution pts = exp pts"

text \<open>
  What it means for a function \<open>u\<close> to satisfy an equation at a point: a fixed value is
  taken there, respectively the wrapped residual function returns zero there.
\<close>

fun satisfied_at :: "grad_operator \<Rightarrow> equation \<Rightarrow> output_tensor \<Rightarrow> real \<Rightarrow> bool" where
  "satisfied_at grad (FixedValue v) u x = (u x = v)"
| "satisfied_at grad (Equation f) u x = (f grad x u = 0)"

text \<open>
  The only property of \<open>grad\<close> that is used: on the given set of points it returns the
  derivative of the function it is applied to.
\<close>

definition differentiates :: "grad_operator \<Rightarrow> output_tensor \<Rightarrow> real set \<Rightarrow> bool" where
  "differentiates grad u S = (\<forall>x\<in>S. (u has_real_derivative grad u x) (at x))"


section \<open>The truth solution\<close>

text \<open>The truth solution is differentiable everywhere and is its own derivative.\<close>

lemma truth_solution_derivative:
  "(truth_solution has_real_derivative truth_solution x) (at x)"
proof -
  have "truth_solution = exp"
    by (rule ext) (simp add: truth_solution_def)
  then show ?thesis
    by simp
qed

text \<open>
  So a \<open>grad\<close> that differentiates the truth solution at \<open>x\<close> returns the truth solution's
  own value there: derivatives are unique.
\<close>

lemma grad_truth_solution:
  assumes "differentiates grad truth_solution S" and "x \<in> S"
  shows "grad truth_solution x = truth_solution x"
proof -
  from assms have "(truth_solution has_real_derivative grad truth_solution x) (at x)"
    by (simp add: differentiates_def)
  then show ?thesis
    using truth_solution_derivative by (rule DERIV_unique)
qed

text \<open>An operator with that property exists, so the assumption can be met.\<close>

lemma differentiates_truth_solution:
  "differentiates (\<lambda>output input. exp input) truth_solution S"
  using truth_solution_derivative by (simp add: differentiates_def truth_solution_def)

text \<open>
  Claim C10. In the SimpleODE problem the declared truth solution \<open>u(x) = exp(x)\<close>
  satisfies both stated conditions: for a \<open>grad\<close> that returns the derivative on the
  spatial domain, the residual computed by \<open>ode_equation\<close> (the derivative of \<open>u\<close> with
  respect to \<open>x\<close> minus \<open>u\<close>) is zero at every \<open>x\<close> of the spatial domain \<open>[0, 1]\<close>, and
  \<open>u(0)\<close> equals the fixed boundary value 1.
\<close>

theorem truth_solution_satisfies_ode:
  assumes "differentiates grad truth_solution (points spatial_domain)"
  shows "(\<forall>x\<in>points spatial_domain. ode_equation grad x truth_solution = 0)
         \<and> truth_solution 0 = 1"
proof
  show "\<forall>x\<in>points spatial_domain. ode_equation grad x truth_solution = 0"
  proof
    fix x
    assume "x \<in> points spatial_domain"
    with assms have "grad truth_solution x = truth_solution x"
      by (rule grad_truth_solution)
    then show "ode_equation grad x truth_solution = 0"
      by (simp add: ode_equation_def)
  qed
next
  show "truth_solution 0 = 1"
    by (simp add: truth_solution_def)
qed

text \<open>
  The theorem at a concrete operator and a concrete point: with the operator that returns
  \<open>exp x\<close> at \<open>x\<close> (the derivative of the truth solution), the residual at \<open>x = 1/2\<close> is
  zero, and the boundary value is 1.
\<close>

theorem truth_solution_satisfies_ode_witness:
  "ode_equation (\<lambda>output input. exp input) (1 / 2) truth_solution = 0
   \<and> truth_solution 0 = 1"
proof -
  have d: "differentiates (\<lambda>output input. exp input) truth_solution
             (points spatial_domain)"
    by (rule differentiates_truth_solution)
  have "(1 / 2 :: real) \<in> points spatial_domain"
    by (simp add: spatial_domain_def)
  with truth_solution_satisfies_ode [OF d] show ?thesis
    by blast
qed

text \<open>
  The same fact read off the dictionary of conditions: every entry is satisfied by the
  truth solution at every point of its location.
\<close>

lemma truth_solution_satisfies_conditions:
  assumes "differentiates grad truth_solution (points spatial_domain)"
    and "(name, location, eq) \<in> set conditions"
    and "x \<in> points location"
  shows "satisfied_at grad eq truth_solution x"
proof -
  from assms(2) consider
      (x0) "location = Fixed 0" "eq = FixedValue 1"
    | (D) "location = Range 0 1" "eq = Equation ode_equation"
    by (auto simp add: conditions_def)
  then show ?thesis
  proof cases
    case x0
    with assms(3) show ?thesis
      by (simp add: truth_solution_def)
  next
    case D
    with assms(3) have "x \<in> points spatial_domain"
      by (simp add: spatial_domain_def)
    with assms(1) have "grad truth_solution x = truth_solution x"
      by (rule grad_truth_solution)
    with D show ?thesis
      by (simp add: ode_equation_def)
  qed
qed

end
